theory Spec2Isabelle
  imports Main "HOL-Library.AList"
begin

section \<open>Python values, exceptions and the traced world\<close>

text \<open>
  The module \<^verbatim>\<open>opentracing_instrumentation/client_hooks/_dbapi2.py\<close> wraps the
  connect function, the connections and the cursors of a DB API v2 (PEP 249) driver.
  Values that cross the wrappers (call arguments, parameters, driver results) are Python
  objects. \<open>PObj\<close> is an opaque driver object (a raw connection, a raw cursor, a callable, a
  result); such an object has the default truth value \<open>True\<close>.
\<close>

datatype pyval =
    PNone
  | PBool bool
  | PInt int
  | PStr string
  | PList "pyval list"
  | PTuple "pyval list"
  | PDict "(string \<times> pyval) list"
  | PObj nat

text \<open>Python truth value testing, as used by \<^verbatim>\<open>if x:\<close> and \<^verbatim>\<open>a or b\<close>.\<close>

fun truthy :: "pyval \<Rightarrow> bool" where
  "truthy PNone = False"
| "truthy (PBool b) = b"
| "truthy (PInt i) = (i \<noteq> 0)"
| "truthy (PStr s) = (s \<noteq> [])"
| "truthy (PList xs) = (xs \<noteq> [])"
| "truthy (PTuple xs) = (xs \<noteq> [])"
| "truthy (PDict kvs) = (kvs \<noteq> [])"
| "truthy (PObj n) = True"

text \<open>
  An exception is either one raised by the driver (its type name and its message), or the
  error the interpreter raises when the \<^verbatim>\<open>with\<close> statement is given an object that has
  no \<^verbatim>\<open>__enter__\<close>/\<^verbatim>\<open>__exit__\<close> (an AttributeError up to Python 3.10, a TypeError
  from 3.11 on).
\<close>

datatype exn =
    Raised string string
  | NotAContextManager

text \<open>
  A tag value is a string. \<^verbatim>\<open>str(x)\<close> of a tuple or dict depends on the interpreter
  (dict order, string quoting), so the tag keeps the object it is the string form of.
\<close>

datatype tagval = Text string | StrOf pyval

record span =
  operation_name :: string
  tags :: "string \<rightharpoonup> tagval"
  parent :: "nat option"
  finished :: bool
  failed :: bool

text \<open>
  A call received by the real driver: the receiver object, the method name, the positional
  arguments and the keyword arguments. The driver answers a call with a value or raises.
\<close>

datatype driver_call = Call pyval string "pyval list" "(string \<times> pyval) list"

type_synonym driver = "driver_call \<Rightarrow> exn + pyval"

text \<open>
  The world: what \<^verbatim>\<open>get_current_span()\<close> returns (the identity of the ambient span,
  if any), the spans started by the instrumentation in start order, and the calls the real
  driver has received, in order.
\<close>

record world =
  current_span :: "nat option"
  spans :: "span list"
  driver_calls :: "driver_call list"

definition invoke :: "driver \<Rightarrow> driver_call \<Rightarrow> world \<Rightarrow> (exn + pyval) \<times> world" where
  "invoke drv c w = (drv c, w\<lparr>driver_calls := driver_calls w @ [c]\<rparr>)"

section \<open>The tracing collaborators\<close>

text \<open>
  What a \<^verbatim>\<open>with\<close> statement in this module can be handed: the function object
  \<^verbatim>\<open>empty_ctx_mgr\<close> (a plain function produced by the \<^verbatim>\<open>contextmanager\<close> decorator,
  which becomes a context manager only when called), or a started span, identified by its
  position in \<open>spans\<close>.
\<close>

datatype ctx = EmptyCtxMgrFunction | SpanCtx nat

text \<open>
  Modelled from the spec: \<^verbatim>\<open>Span.start_child\<close> of the tracing library, whose code is
  not part of this module. It starts a span with the given operation name and tags, as a child of the
  span it is called on, and returns it.
\<close>

definition start_child :: "nat option \<Rightarrow> string \<Rightarrow> (string \<rightharpoonup> tagval) \<Rightarrow> world \<Rightarrow> ctx \<times> world" where
  "start_child p name tgs w =
     (SpanCtx (length (spans w)),
      w\<lparr>spans := spans w @
         [\<lparr>operation_name = name, tags = tgs, parent = p, finished = False, failed = False\<rparr>]\<rparr>)"

text \<open>
  Modelled from the spec: \<^verbatim>\<open>func_span\<close> of the module \<^verbatim>\<open>local_span\<close>, whose code
  is not part of this module. It starts a span named after the function, without tags, under the ambient
  span if there is one, and returns it as a scoped resource.
\<close>

definition func_span :: "string \<Rightarrow> world \<Rightarrow> ctx \<times> world" where
  "func_span name w = start_child (current_span w) name Map.empty w"

text \<open>
  Modelled from the spec: a span used as a scoped resource. Releasing it closes the span
  and marks it failed if the protected block raised; it does not absorb the exception.
\<close>

definition span_exit :: "nat \<Rightarrow> bool \<Rightarrow> world \<Rightarrow> world" where
  "span_exit i raised w =
     (if i < length (spans w)
      then w\<lparr>spans := (spans w)[i := (spans w ! i)\<lparr>finished := True,
                                     failed := (failed (spans w ! i) \<or> raised)\<rparr>]\<rparr>
      else w)"

text \<open>
  The \<^verbatim>\<open>with\<close> statement. An object without the context manager protocol makes the
  statement raise before the body runs. With a span, the body runs, the span is released,
  and the body's value or exception is the statement's.
\<close>

definition with_stmt :: "ctx \<Rightarrow> (world \<Rightarrow> (exn + 'a) \<times> world) \<Rightarrow> world \<Rightarrow> (exn + 'a) \<times> world" where
  "with_stmt cm body w =
     (case cm of
        EmptyCtxMgrFunction \<Rightarrow> (Inl NotAContextManager, w)
      | SpanCtx i \<Rightarrow> (case body w of (r, w') \<Rightarrow> (r, span_exit i (isl r) w')))"

section \<open>String operations used by \<^verbatim>\<open>db_span\<close>\<close>

text \<open>
  \<^verbatim>\<open>str.strip()\<close> removes leading and trailing whitespace. On a text string the
  whitespace characters with a code below 256 are tab, newline, vertical tab, form feed,
  carriage return (9 to 13), the four separators 28 to 31, the space (32), the next-line
  character (133) and the no-break space (160).
\<close>

definition isspace :: "char \<Rightarrow> bool" where
  "isspace c = (of_char c \<in> {9, 10, 11, 12, 13, 28, 29, 30, 31, 32, 133, 160 :: nat})"

definition strip :: "string \<Rightarrow> string" where
  "strip s = rev (dropWhile isspace (rev (dropWhile isspace s)))"

text \<open>\<^verbatim>\<open>s.find(' ')\<close>: the lowest index of a space, or -1.\<close>

fun find_from :: "nat \<Rightarrow> char \<Rightarrow> string \<Rightarrow> int" where
  "find_from i c [] = - 1"
| "find_from i c (x # xs) = (if x = c then int i else find_from (Suc i) c xs)"

definition find_char :: "string \<Rightarrow> char \<Rightarrow> int" where
  "find_char s c = find_from 0 c s"

section \<open>\<^verbatim>\<open>db_span\<close>\<close>

definition COMMIT :: string where "COMMIT = ''commit''"
definition ROLLBACK :: string where "ROLLBACK = ''rollback''"

text \<open>Lines 47 to 57: the flag \<^verbatim>\<open>add_sql_tag\<close> and the operation token.\<close>

definition add_sql_tag :: "string \<Rightarrow> bool" where
  "add_sql_tag sql_statement = (\<not> (sql_statement = COMMIT \<or> sql_statement = ROLLBACK))"

definition operation :: "string \<Rightarrow> string" where
  "operation sql_statement =
     (let statement = strip sql_statement in
      if sql_statement = COMMIT \<or> sql_statement = ROLLBACK then sql_statement
      else (let space_idx = find_char statement (CHR '' '') in
            if space_idx = - 1 then ''''
            else take (nat space_idx) statement))"

text \<open>Lines 59 to 67: the tag dictionary.\<close>

definition db_tags :: "string \<Rightarrow> pyval \<Rightarrow> pyval \<Rightarrow> pyval \<Rightarrow> (string \<rightharpoonup> tagval)" where
  "db_tags sql_statement sql_parameters connect_params cursor_params =
     (let statement = strip sql_statement;
          t0 = Map.empty;
          t1 = (if add_sql_tag sql_statement then t0(''sql'' \<mapsto> Text statement) else t0);
          t2 = (if truthy sql_parameters then t1(''sql.params'' \<mapsto> StrOf sql_parameters) else t1);
          t3 = (if truthy connect_params then t2(''sql.conn'' \<mapsto> StrOf connect_params) else t2);
          t4 = (if truthy cursor_params then t3(''sql.cursor'' \<mapsto> StrOf cursor_params) else t3)
      in t4)"

text \<open>
  \<^verbatim>\<open>db_span\<close>. Without an ambient span it returns \<^verbatim>\<open>empty_ctx_mgr\<close>, the function
  itself (line 45 does not call it). Otherwise it starts a child of the ambient span.
\<close>

definition db_span :: "string \<Rightarrow> string \<Rightarrow> pyval \<Rightarrow> pyval \<Rightarrow> pyval \<Rightarrow> world \<Rightarrow> ctx \<times> world" where
  "db_span sql_statement module_name sql_parameters connect_params cursor_params w =
     (case current_span w of
        None \<Rightarrow> (EmptyCtxMgrFunction, w)
      | Some p \<Rightarrow>
          start_child (Some p) (module_name @ '':'' @ operation sql_statement)
            (db_tags sql_statement sql_parameters connect_params cursor_params) w)"

section \<open>\<^verbatim>\<open>CursorWrapper\<close>\<close>

text \<open>
  The wrapper keeps the raw cursor, the module name and the two parameter records. The
  optional argument \<^verbatim>\<open>params=NO_ARG\<close> of \<^verbatim>\<open>execute\<close> and \<^verbatim>\<open>callproc\<close> is an
  \<open>option\<close>: \<open>None\<close> is the sentinel \<^verbatim>\<open>NO_ARG\<close> (the caller passed nothing), \<open>Some p\<close> is
  a supplied value, whatever it is. The constructor also binds \<^verbatim>\<open>fetchone\<close>,
  \<^verbatim>\<open>fetchmany\<close>, \<^verbatim>\<open>fetchall\<close>, \<^verbatim>\<open>close\<close> and the optional extensions of the raw
  cursor on the wrapper; these pass straight through, take no part in the instrumented
  calls, and are left out. Raw driver objects are taken to have the attributes PEP 249
  gives them.
\<close>

record CursorWrapper =
  cur_cursor :: pyval
  cur_module_name :: string
  cur_connect_params :: pyval
  cur_cursor_params :: pyval

definition CursorWrapper_execute ::
  "driver \<Rightarrow> CursorWrapper \<Rightarrow> string \<Rightarrow> pyval option \<Rightarrow> world \<Rightarrow> (exn + pyval) \<times> world" where
  "CursorWrapper_execute drv self sql params w =
     (case db_span sql (cur_module_name self)
             (case params of None \<Rightarrow> PNone | Some p \<Rightarrow> p)
             (cur_connect_params self) (cur_cursor_params self) w of
        (cm, w1) \<Rightarrow>
          with_stmt cm
            (\<lambda>w2. case params of
                None \<Rightarrow> invoke drv (Call (cur_cursor self) ''execute'' [PStr sql] []) w2
              | Some p \<Rightarrow> invoke drv (Call (cur_cursor self) ''execute'' [PStr sql, p] []) w2)
            w1)"

definition CursorWrapper_executemany ::
  "driver \<Rightarrow> CursorWrapper \<Rightarrow> string \<Rightarrow> pyval \<Rightarrow> world \<Rightarrow> (exn + pyval) \<times> world" where
  "CursorWrapper_executemany drv self sql seq_of_parameters w =
     (case db_span sql (cur_module_name self) seq_of_parameters
             (cur_connect_params self) (cur_cursor_params self) w of
        (cm, w1) \<Rightarrow>
          with_stmt cm
            (invoke drv (Call (cur_cursor self) ''executemany'' [PStr sql, seq_of_parameters] []))
            w1)"

definition CursorWrapper_callproc ::
  "driver \<Rightarrow> CursorWrapper \<Rightarrow> string \<Rightarrow> pyval option \<Rightarrow> world \<Rightarrow> (exn + pyval) \<times> world" where
  "CursorWrapper_callproc drv self proc_name params w =
     (case db_span (''sproc:'' @ proc_name) (cur_module_name self)
             (case params of None \<Rightarrow> PNone | Some p \<Rightarrow> p)
             (cur_connect_params self) (cur_cursor_params self) w of
        (cm, w1) \<Rightarrow>
          with_stmt cm
            (\<lambda>w2. case params of
                None \<Rightarrow> invoke drv (Call (cur_cursor self) ''callproc'' [PStr proc_name] []) w2
              | Some p \<Rightarrow> invoke drv (Call (cur_cursor self) ''callproc'' [PStr proc_name, p] []) w2)
            w1)"

section \<open>\<^verbatim>\<open>ConnectionWrapper\<close> and \<^verbatim>\<open>ContextManagerConnectionWrapper\<close>\<close>

datatype wrapper_class = ConnectionWrapperClass | ContextManagerConnectionWrapperClass

record ConnectionWrapper =
  conn_class :: wrapper_class
  conn_connection :: pyval
  conn_module_name :: string
  conn_connect_params :: pyval

text \<open>
  \<^verbatim>\<open>cursor(*args, **kwargs)\<close> asks the real connection for a cursor, outside any span,
  and wraps it; \<^verbatim>\<open>cursor_params\<close> is the pair of the arguments, or \<^verbatim>\<open>None\<close> when
  both are empty.
\<close>

definition ConnectionWrapper_cursor ::
  "driver \<Rightarrow> ConnectionWrapper \<Rightarrow> pyval list \<Rightarrow> (string \<times> pyval) list \<Rightarrow> world
     \<Rightarrow> (exn + CursorWrapper) \<times> world" where
  "ConnectionWrapper_cursor drv self args kwargs w =
     (case invoke drv (Call (conn_connection self) ''cursor'' args kwargs) w of
        (Inl e, w1) \<Rightarrow> (Inl e, w1)
      | (Inr c, w1) \<Rightarrow>
          (Inr \<lparr>cur_cursor = c,
                cur_module_name = conn_module_name self,
                cur_connect_params = conn_connect_params self,
                cur_cursor_params =
                  (if args \<noteq> [] \<or> kwargs \<noteq> [] then PTuple [PTuple args, PDict kwargs] else PNone)\<rparr>,
           w1))"

definition ConnectionWrapper_commit ::
  "driver \<Rightarrow> ConnectionWrapper \<Rightarrow> world \<Rightarrow> (exn + pyval) \<times> world" where
  "ConnectionWrapper_commit drv self w =
     (case db_span COMMIT (conn_module_name self) PNone PNone PNone w of
        (cm, w1) \<Rightarrow> with_stmt cm (invoke drv (Call (conn_connection self) ''commit'' [] [])) w1)"

definition ConnectionWrapper_rollback ::
  "driver \<Rightarrow> ConnectionWrapper \<Rightarrow> world \<Rightarrow> (exn + pyval) \<times> world" where
  "ConnectionWrapper_rollback drv self w =
     (case db_span ROLLBACK (conn_module_name self) PNone PNone PNone w of
        (cm, w1) \<Rightarrow> with_stmt cm (invoke drv (Call (conn_connection self) ''rollback'' [] [])) w1)"

text \<open>
  \<^verbatim>\<open>__enter__\<close>: the real enter call runs inside a function span; the cursor wrapper is
  built after the span is released, without cursor parameters.
\<close>

definition ContextManagerConnectionWrapper_enter ::
  "driver \<Rightarrow> ConnectionWrapper \<Rightarrow> world \<Rightarrow> (exn + CursorWrapper) \<times> world" where
  "ContextManagerConnectionWrapper_enter drv self w =
     (case func_span (conn_module_name self @ '':begin_transaction'') w of
        (cm, w1) \<Rightarrow>
          (case with_stmt cm (invoke drv (Call (conn_connection self) ''__enter__'' [] [])) w1 of
             (Inl e, w2) \<Rightarrow> (Inl e, w2)
           | (Inr cursor, w2) \<Rightarrow>
               (Inr \<lparr>cur_cursor = cursor,
                     cur_module_name = conn_module_name self,
                     cur_connect_params = conn_connect_params self,
                     cur_cursor_params = PNone\<rparr>,
                w2)))"

text \<open>\<^verbatim>\<open>__exit__(exc, value, tb)\<close>: \<^verbatim>\<open>exc is None\<close> is the test for "no exception".\<close>

definition ContextManagerConnectionWrapper_exit ::
  "driver \<Rightarrow> ConnectionWrapper \<Rightarrow> pyval \<Rightarrow> pyval \<Rightarrow> pyval \<Rightarrow> world \<Rightarrow> (exn + pyval) \<times> world" where
  "ContextManagerConnectionWrapper_exit drv self exc val tb w =
     (let outcome = (if exc = PNone then COMMIT else ROLLBACK) in
      case db_span outcome (conn_module_name self) PNone PNone PNone w of
        (cm, w1) \<Rightarrow>
          with_stmt cm (invoke drv (Call (conn_connection self) ''__exit__'' [exc, val, tb] [])) w1)"

section \<open>\<^verbatim>\<open>ConnectionFactory\<close>\<close>

text \<open>
  The connect function is an opaque callable; \<open>fn_name\<close> is its \<^verbatim>\<open>__name__\<close> attribute
  when it has one, \<open>fn_str\<close> its string form.
\<close>

record callable =
  fn_obj :: pyval
  fn_name :: "string option"
  fn_str :: string

record ConnectionFactory =
  connect_func :: callable
  factory_module_name :: string
  connect_func_name :: string
  wrapper_ctor :: wrapper_class

definition ConnectionFactory_init ::
  "callable \<Rightarrow> string \<Rightarrow> wrapper_class option \<Rightarrow> ConnectionFactory" where
  "ConnectionFactory_init f module_name conn_wrapper_ctor =
     \<lparr>connect_func = f,
      factory_module_name = module_name,
      connect_func_name =
        (case fn_name f of
           Some n \<Rightarrow> module_name @ '':'' @ n
         | None \<Rightarrow> module_name @ '':'' @ fn_str f),
      wrapper_ctor =
        (case conn_wrapper_ctor of Some c \<Rightarrow> c | None \<Rightarrow> ConnectionWrapperClass)\<rparr>"

text \<open>
  Lines 94 to 100 work on dict objects by reference: \<^verbatim>\<open>safe_kwargs = kwargs\<close> binds a
  second name to the same object, \<^verbatim>\<open>dict(kwargs)\<close> allocates a copy, and \<^verbatim>\<open>del\<close>
  mutates the object \<^verbatim>\<open>safe_kwargs\<close> refers to. The store maps a reference to the dict
  held there; reference 0 is the \<^verbatim>\<open>kwargs\<close> of the call, reference 1 the copy.
\<close>

type_synonym dict = "(string \<times> pyval) list"

definition has_key :: "string \<Rightarrow> dict \<Rightarrow> bool" where
  "has_key k d = (k \<in> set (map fst d))"

definition del_key :: "nat \<Rightarrow> string \<Rightarrow> (nat \<Rightarrow> dict) \<Rightarrow> (nat \<Rightarrow> dict)" where
  "del_key r k h = h(r := AList.delete k (h r))"

definition redact :: "dict \<Rightarrow> (nat \<Rightarrow> dict) \<times> nat" where
  "redact kwargs =
     (let h0 = (\<lambda>r. [])(0 := kwargs);
          safe_kwargs = 0
      in if has_key ''passwd'' (h0 safe_kwargs) \<or> has_key ''password'' (h0 safe_kwargs)
         then (let h1 = h0(1 := h0 0);
                   safe_kwargs = 1;
                   h2 = (if has_key ''passwd'' (h1 safe_kwargs)
                         then del_key safe_kwargs ''passwd'' h1 else h1);
                   h3 = (if has_key ''password'' (h2 safe_kwargs)
                         then del_key safe_kwargs ''password'' h2 else h2)
               in (h3, safe_kwargs))
         else (h0, safe_kwargs))"

definition make_wrapper :: "wrapper_class \<Rightarrow> pyval \<Rightarrow> string \<Rightarrow> pyval \<Rightarrow> ConnectionWrapper" where
  "make_wrapper cls connection module_name connect_params =
     \<lparr>conn_class = cls, conn_connection = connection,
      conn_module_name = module_name, conn_connect_params = connect_params\<rparr>"

definition ConnectionFactory_call ::
  "driver \<Rightarrow> ConnectionFactory \<Rightarrow> pyval list \<Rightarrow> dict \<Rightarrow> world
     \<Rightarrow> (exn + ConnectionWrapper) \<times> world" where
  "ConnectionFactory_call drv self args kwargs w =
     (case redact kwargs of
        (h, safe_kwargs) \<Rightarrow>
          (let connect_params =
                 (if args \<noteq> [] \<or> h safe_kwargs \<noteq> []
                  then PTuple [PTuple args, PDict (h safe_kwargs)] else PNone)
           in case func_span (connect_func_name self) w of
                (cm, w1) \<Rightarrow>
                  with_stmt cm
                    (\<lambda>w2. case invoke drv (Call (fn_obj (connect_func self)) ''__call__'' args (h 0)) w2 of
                        (Inl e, w3) \<Rightarrow> (Inl e, w3)
                      | (Inr c, w3) \<Rightarrow>
                          (Inr (make_wrapper (wrapper_ctor self) c
                                  (factory_module_name self) connect_params), w3))
                    w1))"

section \<open>Observations used by the properties\<close>

text \<open>
  The spec's \<^verbatim>\<open>redactedKwargs\<close>: the keyword arguments with the keys \<^verbatim>\<open>password\<close>
  and \<^verbatim>\<open>passwd\<close> removed.
\<close>

definition redacted_kwargs :: "dict \<Rightarrow> dict" where
  "redacted_kwargs kwargs =
     filter (\<lambda>kv. fst kv \<noteq> ''password'' \<and> fst kv \<noteq> ''passwd'') kwargs"

text \<open>The keyword keys held by a recorded \<^verbatim>\<open>connect_params\<close> value.\<close>

fun kwargs_keys :: "pyval \<Rightarrow> string set" where
  "kwargs_keys (PTuple [a, PDict d]) = set (map fst d)"
| "kwargs_keys v = {}"

section \<open>Concrete scenarios\<close>

text \<open>
  A world without an ambient span and one with an ambient span, a driver whose every call
  returns the object 7, a driver whose every call raises, and wrappers of the module
  \<^verbatim>\<open>MySQLdb\<close> around the raw connection 1 and the raw cursor 2.
\<close>

definition untraced :: world where
  "untraced = \<lparr>current_span = None, spans = [], driver_calls = []\<rparr>"

definition traced :: world where
  "traced = \<lparr>current_span = Some 0, spans = [], driver_calls = []\<rparr>"

definition ok_driver :: driver where
  "ok_driver c = Inr (PObj 7)"

definition failing_driver :: driver where
  "failing_driver c = Inl (Raised ''OperationalError'' ''server has gone away'')"

definition a_cursor :: CursorWrapper where
  "a_cursor = \<lparr>cur_cursor = PObj 2, cur_module_name = ''MySQLdb'',
               cur_connect_params = PNone, cur_cursor_params = PNone\<rparr>"

definition a_connection :: ConnectionWrapper where
  "a_connection = make_wrapper ContextManagerConnectionWrapperClass (PObj 1) ''MySQLdb'' PNone"

definition a_factory :: ConnectionFactory where
  "a_factory = ConnectionFactory_init
     \<lparr>fn_obj = PObj 0, fn_name = Some ''connect'', fn_str = ''<function connect>''\<rparr>
     ''MySQLdb'' None"

section \<open>Strings: \<^verbatim>\<open>find\<close>, \<^verbatim>\<open>strip\<close> and the operation token\<close>

lemma find_from_none: "find_from i c s = - 1 \<longleftrightarrow> c \<notin> set s"
  by (induction s arbitrary: i) auto

lemma find_from_some:
  "c \<in> set s \<Longrightarrow> find_from i c s = int (i + length (takeWhile (\<lambda>x. x \<noteq> c) s))"
  by (induction s arbitrary: i) auto

lemma find_char_none: "find_char s c = - 1 \<longleftrightarrow> c \<notin> set s"
  by (simp add: find_char_def find_from_none)

lemma take_find_char:
  "c \<in> set s \<Longrightarrow> take (nat (find_char s c)) s = takeWhile (\<lambda>x. x \<noteq> c) s"
proof -
  assume "c \<in> set s"
  then have "nat (find_char s c) = length (takeWhile (\<lambda>x. x \<noteq> c) s)"
    by (simp add: find_char_def find_from_some)
  then show ?thesis
    using takeWhile_eq_take [of "\<lambda>x. x \<noteq> c" s] by simp
qed

lemma operation_token:
  "S \<noteq> ''commit'' \<Longrightarrow> S \<noteq> ''rollback'' \<Longrightarrow>
   operation S = (if CHR '' '' \<in> set (strip S)
                  then takeWhile (\<lambda>c. c \<noteq> CHR '' '') (strip S) else [])"
  by (simp add: operation_def COMMIT_def ROLLBACK_def Let_def take_find_char find_char_none)

lemma operation_keyword: "S = ''commit'' \<or> S = ''rollback'' \<Longrightarrow> operation S = S"
  by (auto simp: operation_def COMMIT_def ROLLBACK_def Let_def)

lemma operation_COMMIT: "operation COMMIT = COMMIT"
  by (simp add: operation_def Let_def)

lemma operation_ROLLBACK: "operation ROLLBACK = ROLLBACK"
  by (simp add: operation_def Let_def)

lemma set_strip: "set (strip s) \<subseteq> set s"
proof
  fix x assume "x \<in> set (strip s)"
  then have "x \<in> set (dropWhile isspace (rev (dropWhile isspace s)))"
    by (simp add: strip_def)
  then have "x \<in> set (dropWhile isspace s)"
    using set_dropWhileD by fastforce
  then show "x \<in> set s"
    by (rule set_dropWhileD)
qed

text \<open>
  What trimming is: \<open>strip s\<close> is \<open>s\<close> without a leading and a trailing run of
  whitespace, and it neither starts nor ends with whitespace. These two facts determine it.
\<close>

lemma last_dropWhile_nonempty: "dropWhile P xs \<noteq> [] \<Longrightarrow> last (dropWhile P xs) = last xs"
  by (induction xs) auto

lemma rev_split: "rev (dropWhile P (rev xs)) @ rev (takeWhile P (rev xs)) = xs"
proof -
  have "rev (dropWhile P (rev xs)) @ rev (takeWhile P (rev xs))
      = rev (takeWhile P (rev xs) @ dropWhile P (rev xs))"
    by (simp only: rev_append)
  also have "\<dots> = rev (rev xs)"
    by (simp only: takeWhile_dropWhile_id)
  also have "\<dots> = xs"
    by (simp only: rev_rev_ident)
  finally show ?thesis .
qed

lemma strip_decomp:
  "\<exists>l r. s = l @ strip s @ r \<and> (\<forall>c\<in>set l. isspace c) \<and> (\<forall>c\<in>set r. isspace c)"
proof -
  define d where "d = dropWhile isspace s"
  define l where "l = takeWhile isspace s"
  define r where "r = rev (takeWhile isspace (rev d))"
  have s: "s = l @ d"
    by (simp add: l_def d_def)
  have d: "d = strip s @ r"
    using rev_split [of isspace d] by (simp add: strip_def r_def d_def)
  have "\<forall>c\<in>set l. isspace c"
    by (auto simp: l_def dest: set_takeWhileD)
  moreover have "\<forall>c\<in>set r. isspace c"
    by (auto simp: r_def dest: set_takeWhileD)
  ultimately show ?thesis
    using s d by blast
qed

lemma strip_ends:
  "strip s = [] \<or> (\<not> isspace (hd (strip s)) \<and> \<not> isspace (last (strip s)))"
proof (cases "strip s = []")
  case True
  then show ?thesis by simp
next
  case False
  define d where "d = dropWhile isspace s"
  define e where "e = dropWhile isspace (rev d)"
  have st: "strip s = rev e"
    by (simp add: strip_def e_def d_def)
  with False have e: "e \<noteq> []"
    by simp
  then have rd: "rev d \<noteq> []"
    by (auto simp: e_def)
  have "\<not> isspace (hd e)"
    using e unfolding e_def by (rule hd_dropWhile)
  then have a: "\<not> isspace (last (strip s))"
    using e by (simp add: st last_rev)
  have "last e = last (rev d)"
    using e unfolding e_def by (rule last_dropWhile_nonempty)
  also have "\<dots> = hd d"
    using rd by (simp add: last_rev)
  finally have le: "last e = hd d" .
  have "d \<noteq> []"
    using rd by simp
  then have "\<not> isspace (hd d)"
    unfolding d_def by (rule hd_dropWhile)
  then have b: "\<not> isspace (hd (strip s))"
    using e le by (simp add: st hd_rev)
  show ?thesis
    using a b by simp
qed

lemma strip_keeps_head:
  assumes "s \<noteq> []" and "\<not> isspace (hd s)"
  shows "strip s \<noteq> [] \<and> \<not> isspace (last (strip s))
    \<and> (\<exists>r. s = strip s @ r \<and> (\<forall>c\<in>set r. isspace c))"
proof -
  have d: "dropWhile isspace s = s"
    using assms by (cases s) simp_all
  define r where "r = rev (takeWhile isspace (rev s))"
  have s: "s = strip s @ r"
    using rev_split [of isspace s] by (simp add: strip_def r_def d)
  have r: "\<forall>c\<in>set r. isspace c"
    by (auto simp: r_def dest: set_takeWhileD)
  have ne: "strip s \<noteq> []"
  proof
    assume "strip s = []"
    with s have "s = r" by simp
    with r assms show False
      by (cases s) auto
  qed
  then have "\<not> isspace (last (strip s))"
    using strip_ends [of s] by simp
  then show ?thesis
    using ne s r by blast
qed

lemma dropWhile_hd: "s \<noteq> [] \<Longrightarrow> \<not> P (hd s) \<Longrightarrow> dropWhile P s = s"
  by (cases s) simp_all

lemma strip_id: "s \<noteq> [] \<Longrightarrow> \<not> isspace (hd s) \<Longrightarrow> \<not> isspace (last s) \<Longrightarrow> strip s = s"
  by (simp add: strip_def dropWhile_hd hd_rev)

lemma sproc_no_space: "CHR '' '' \<notin> set name \<Longrightarrow> CHR '' '' \<notin> set (strip (''sproc:'' @ name))"
  using set_strip [of "''sproc:'' @ name"] by auto

lemma operation_sproc: "CHR '' '' \<notin> set name \<Longrightarrow> operation (''sproc:'' @ name) = []"
  using sproc_no_space [of name]
  by (simp add: operation_def Let_def COMMIT_def ROLLBACK_def find_char_none)

section \<open>The tag dictionary\<close>

lemma db_tags_sql:
  "db_tags S sp cp cup ''sql'' = (if add_sql_tag S then Some (Text (strip S)) else None)"
  by (simp add: db_tags_def Let_def)

lemma db_tags_params:
  "db_tags S sp cp cup ''sql.params'' = (if truthy sp then Some (StrOf sp) else None)"
  by (simp add: db_tags_def Let_def)

lemma db_tags_conn:
  "db_tags S sp cp cup ''sql.conn'' = (if truthy cp then Some (StrOf cp) else None)"
  by (simp add: db_tags_def Let_def)

lemma db_tags_keyword:
  "S = COMMIT \<or> S = ROLLBACK \<Longrightarrow> db_tags S PNone PNone PNone = Map.empty"
  by (auto simp: db_tags_def add_sql_tag_def Let_def)

section \<open>A call under \<^verbatim>\<open>with db_span(...)\<close>\<close>

lemma db_span_traced:
  "current_span w = Some p \<Longrightarrow>
   db_span s m sp cp cup w =
     (SpanCtx (length (spans w)),
      w\<lparr>spans := spans w @ [\<lparr>operation_name = m @ '':'' @ operation s,
          tags = db_tags s sp cp cup, parent = Some p, finished = False, failed = False\<rparr>]\<rparr>)"
  by (simp add: db_span_def start_child_def)

lemma db_span_untraced:
  "current_span w = None \<Longrightarrow> db_span s m sp cp cup w = (EmptyCtxMgrFunction, w)"
  by (simp add: db_span_def)

text \<open>
  With an ambient span the real call is made once, its outcome is the outcome of the
  statement, and the span is closed, failed exactly when the call raised.
\<close>

lemma traced_call:
  "current_span w = Some p \<Longrightarrow>
   (case db_span s m sp cp cup w of (cm, w1) \<Rightarrow> with_stmt cm (invoke drv c) w1) =
     (drv c,
      w\<lparr>spans := spans w @ [\<lparr>operation_name = m @ '':'' @ operation s,
          tags = db_tags s sp cp cup, parent = Some p, finished = True, failed = isl (drv c)\<rparr>],
        driver_calls := driver_calls w @ [c]\<rparr>)"
  by (simp add: db_span_traced with_stmt_def invoke_def span_exit_def)

text \<open>Without an ambient span the statement raises and the body is never run.\<close>

lemma untraced_call:
  "current_span w = None \<Longrightarrow>
   (case db_span s m sp cp cup w of (cm, w1) \<Rightarrow> with_stmt cm body w1) =
     (Inl NotAContextManager, w)"
  by (simp add: db_span_untraced with_stmt_def)

lemma untraced_calls_raise:
  assumes "current_span w = None"
  shows "CursorWrapper_execute drv self sql params w = (Inl NotAContextManager, w)"
    and "CursorWrapper_executemany drv self sql seq w = (Inl NotAContextManager, w)"
    and "CursorWrapper_callproc drv self name params w = (Inl NotAContextManager, w)"
    and "ConnectionWrapper_commit drv conn w = (Inl NotAContextManager, w)"
    and "ConnectionWrapper_rollback drv conn w = (Inl NotAContextManager, w)"
    and "ContextManagerConnectionWrapper_exit drv conn exc val tb w = (Inl NotAContextManager, w)"
  using assms
  by (simp_all add: CursorWrapper_execute_def CursorWrapper_executemany_def
      CursorWrapper_callproc_def ConnectionWrapper_commit_def ConnectionWrapper_rollback_def
      ContextManagerConnectionWrapper_exit_def untraced_call)

lemma execute_traced:
  assumes "current_span w = Some p"
  shows "CursorWrapper_execute drv self sql params w =
     (drv (Call (cur_cursor self) ''execute''
             (PStr sql # (case params of None \<Rightarrow> [] | Some v \<Rightarrow> [v])) []),
      w\<lparr>spans := spans w @ [\<lparr>operation_name = cur_module_name self @ '':'' @ operation sql,
          tags = db_tags sql (case params of None \<Rightarrow> PNone | Some v \<Rightarrow> v)
                   (cur_connect_params self) (cur_cursor_params self),
          parent = Some p, finished = True,
          failed = isl (drv (Call (cur_cursor self) ''execute''
                     (PStr sql # (case params of None \<Rightarrow> [] | Some v \<Rightarrow> [v])) []))\<rparr>],
        driver_calls := driver_calls w @
          [Call (cur_cursor self) ''execute''
             (PStr sql # (case params of None \<Rightarrow> [] | Some v \<Rightarrow> [v])) []]\<rparr>)"
proof (cases params)
  case None
  then show ?thesis
    using traced_call [OF assms] by (simp add: CursorWrapper_execute_def)
next
  case (Some v)
  then show ?thesis
    using traced_call [OF assms] by (simp add: CursorWrapper_execute_def)
qed

lemma executemany_traced:
  assumes "current_span w = Some p"
  shows "CursorWrapper_executemany drv self sql seq w =
     (drv (Call (cur_cursor self) ''executemany'' [PStr sql, seq] []),
      w\<lparr>spans := spans w @ [\<lparr>operation_name = cur_module_name self @ '':'' @ operation sql,
          tags = db_tags sql seq (cur_connect_params self) (cur_cursor_params self),
          parent = Some p, finished = True,
          failed = isl (drv (Call (cur_cursor self) ''executemany'' [PStr sql, seq] []))\<rparr>],
        driver_calls := driver_calls w @
          [Call (cur_cursor self) ''executemany'' [PStr sql, seq] []]\<rparr>)"
  using traced_call [OF assms] by (simp add: CursorWrapper_executemany_def)

lemma callproc_traced:
  assumes "current_span w = Some p"
  shows "CursorWrapper_callproc drv self name params w =
     (drv (Call (cur_cursor self) ''callproc''
             (PStr name # (case params of None \<Rightarrow> [] | Some v \<Rightarrow> [v])) []),
      w\<lparr>spans := spans w @
         [\<lparr>operation_name = cur_module_name self @ '':'' @ operation (''sproc:'' @ name),
          tags = db_tags (''sproc:'' @ name) (case params of None \<Rightarrow> PNone | Some v \<Rightarrow> v)
                   (cur_connect_params self) (cur_cursor_params self),
          parent = Some p, finished = True,
          failed = isl (drv (Call (cur_cursor self) ''callproc''
                     (PStr name # (case params of None \<Rightarrow> [] | Some v \<Rightarrow> [v])) []))\<rparr>],
        driver_calls := driver_calls w @
          [Call (cur_cursor self) ''callproc''
             (PStr name # (case params of None \<Rightarrow> [] | Some v \<Rightarrow> [v])) []]\<rparr>)"
proof (cases params)
  case None
  then show ?thesis
    using traced_call [OF assms] by (simp add: CursorWrapper_callproc_def)
next
  case (Some v)
  then show ?thesis
    using traced_call [OF assms] by (simp add: CursorWrapper_callproc_def)
qed

lemma callproc_span:
  assumes "current_span w = Some p"
  shows "operation_name (last (spans (snd (CursorWrapper_callproc drv self name params w))))
           = cur_module_name self @ '':'' @ operation (''sproc:'' @ name)"
    and "tags (last (spans (snd (CursorWrapper_callproc drv self name params w))))
           = db_tags (''sproc:'' @ name) (case params of None \<Rightarrow> PNone | Some v \<Rightarrow> v)
               (cur_connect_params self) (cur_cursor_params self)"
  by (simp_all add: callproc_traced [OF assms])

lemma commit_traced:
  assumes "current_span w = Some p"
  shows "ConnectionWrapper_commit drv self w =
     (drv (Call (conn_connection self) ''commit'' [] []),
      w\<lparr>spans := spans w @ [\<lparr>operation_name = conn_module_name self @ '':'' @ COMMIT,
          tags = Map.empty, parent = Some p, finished = True,
          failed = isl (drv (Call (conn_connection self) ''commit'' [] []))\<rparr>],
        driver_calls := driver_calls w @ [Call (conn_connection self) ''commit'' [] []]\<rparr>)"
  using traced_call [OF assms]
  by (simp add: ConnectionWrapper_commit_def operation_COMMIT db_tags_keyword)

lemma rollback_traced:
  assumes "current_span w = Some p"
  shows "ConnectionWrapper_rollback drv self w =
     (drv (Call (conn_connection self) ''rollback'' [] []),
      w\<lparr>spans := spans w @ [\<lparr>operation_name = conn_module_name self @ '':'' @ ROLLBACK,
          tags = Map.empty, parent = Some p, finished = True,
          failed = isl (drv (Call (conn_connection self) ''rollback'' [] []))\<rparr>],
        driver_calls := driver_calls w @ [Call (conn_connection self) ''rollback'' [] []]\<rparr>)"
  using traced_call [OF assms]
  by (simp add: ConnectionWrapper_rollback_def operation_ROLLBACK db_tags_keyword)

text \<open>
  With an ambient span, \<^verbatim>\<open>__exit__\<close> of the context manager variant starts a span keyed
  \<^verbatim>\<open>commit\<close> or \<^verbatim>\<open>rollback\<close>, hands the three arguments to the real exit call and
  returns what that call returns.
\<close>

lemma exit_traced:
  assumes "current_span w = Some p"
  shows "ContextManagerConnectionWrapper_exit drv self exc val tb w =
     (drv (Call (conn_connection self) ''__exit__'' [exc, val, tb] []),
      w\<lparr>spans := spans w @ [\<lparr>operation_name = conn_module_name self @ '':'' @
             (if exc = PNone then ''commit'' else ''rollback''),
          tags = Map.empty, parent = Some p, finished = True,
          failed = isl (drv (Call (conn_connection self) ''__exit__'' [exc, val, tb] []))\<rparr>],
        driver_calls := driver_calls w @
          [Call (conn_connection self) ''__exit__'' [exc, val, tb] []]\<rparr>)"
  using traced_call [OF assms]
  by (simp add: ContextManagerConnectionWrapper_exit_def operation_COMMIT operation_ROLLBACK
      db_tags_keyword)
     (simp add: COMMIT_def ROLLBACK_def)

text \<open>With an ambient span, the real cursor call has the arity of the caller's call.\<close>

lemma arity_mirrors_traced:
  assumes "current_span w = Some p"
  shows "driver_calls (snd (CursorWrapper_execute drv self sql None w))
           = driver_calls w @ [Call (cur_cursor self) ''execute'' [PStr sql] []]"
    and "driver_calls (snd (CursorWrapper_execute drv self sql (Some v) w))
           = driver_calls w @ [Call (cur_cursor self) ''execute'' [PStr sql, v] []]"
    and "driver_calls (snd (CursorWrapper_callproc drv self name None w))
           = driver_calls w @ [Call (cur_cursor self) ''callproc'' [PStr name] []]"
    and "driver_calls (snd (CursorWrapper_callproc drv self name (Some v) w))
           = driver_calls w @ [Call (cur_cursor self) ''callproc'' [PStr name, v] []]"
  by (simp_all add: execute_traced [OF assms] callproc_traced [OF assms])

section \<open>Redaction and the connect call\<close>

lemma delete_absent: "\<not> has_key k d \<Longrightarrow> AList.delete k d = d"
  by (induction d) (auto simp: has_key_def)

lemma has_key_delete: "has_key k (AList.delete j d) \<longleftrightarrow> k \<noteq> j \<and> has_key k d"
  by (induction d) (auto simp: has_key_def)

lemma delete_twice_redacted:
  "AList.delete ''password'' (AList.delete ''passwd'' kwargs) = redacted_kwargs kwargs"
  by (induction kwargs) (auto simp: redacted_kwargs_def)

text \<open>
  After lines 94 to 100 the object \<^verbatim>\<open>kwargs\<close> is unchanged and \<^verbatim>\<open>safe_kwargs\<close>
  refers to a dict without the two keys.
\<close>

lemma redact_kwargs:
  assumes "redact kwargs = (h, r)"
  shows "h 0 = kwargs" and "h r = redacted_kwargs kwargs"
proof -
  have "h 0 = kwargs \<and> h r = AList.delete ''password'' (AList.delete ''passwd'' kwargs)"
  proof (cases "has_key ''passwd'' kwargs")
    case True
    then show ?thesis
      using assms
      by (cases "has_key ''password'' kwargs")
         (auto simp: redact_def Let_def del_key_def has_key_delete delete_absent)
  next
    case False
    then show ?thesis
      using assms
      by (cases "has_key ''password'' kwargs")
         (auto simp: redact_def Let_def del_key_def has_key_delete delete_absent)
  qed
  then show "h 0 = kwargs" and "h r = redacted_kwargs kwargs"
    by (simp_all add: delete_twice_redacted)
qed

lemma redacted_keys:
  "''password'' \<notin> fst ` set (redacted_kwargs d) \<and> ''passwd'' \<notin> fst ` set (redacted_kwargs d)"
  by (auto simp: redacted_kwargs_def)

lemma connect_call:
  "ConnectionFactory_call drv self args kwargs w =
     (case drv (Call (fn_obj (connect_func self)) ''__call__'' args kwargs) of
        Inl e \<Rightarrow> Inl e
      | Inr c \<Rightarrow> Inr (make_wrapper (wrapper_ctor self) c (factory_module_name self)
                 (if args = [] \<and> redacted_kwargs kwargs = [] then PNone
                  else PTuple [PTuple args, PDict (redacted_kwargs kwargs)])),
      w\<lparr>spans := spans w @ [\<lparr>operation_name = connect_func_name self, tags = Map.empty,
          parent = current_span w, finished = True,
          failed = isl (drv (Call (fn_obj (connect_func self)) ''__call__'' args kwargs))\<rparr>],
        driver_calls := driver_calls w @
          [Call (fn_obj (connect_func self)) ''__call__'' args kwargs]\<rparr>)"
proof -
  obtain h r where hr: "redact kwargs = (h, r)"
    by (cases "redact kwargs")
  note k = redact_kwargs [OF hr]
  show ?thesis
    by (cases "drv (Call (fn_obj (connect_func self)) ''__call__'' args kwargs)")
       (simp_all add: ConnectionFactory_call_def hr k func_span_def start_child_def with_stmt_def
          invoke_def span_exit_def)
qed

section \<open>Claims\<close>

subsection \<open>C1: instrumented calls without an ambient span\<close>

text \<open>
  Claim C1 says that, when the ambient span lookup returns \<^verbatim>\<open>None\<close>, \<^verbatim>\<open>db_span\<close> yields
  a scope that does nothing, so that the real driver call is still executed and its result
  reaches the caller. The code returns the function \<^verbatim>\<open>empty_ctx_mgr\<close> without calling
  it, and the \<^verbatim>\<open>with\<close> statement raises on it. Evaluated without an ambient span and
  with a driver whose every call would succeed: \<^verbatim>\<open>execute\<close>, \<^verbatim>\<open>executemany\<close>,
  \<^verbatim>\<open>callproc\<close>, \<^verbatim>\<open>commit\<close> and \<^verbatim>\<open>rollback\<close> each raise the interpreter's error
  and leave the world as it was: the driver has received no call.
\<close>

theorem no_ambient_span_calls_raise:
  "CursorWrapper_execute ok_driver a_cursor ''SELECT 1'' None untraced
     = (Inl NotAContextManager, untraced)
   \<and> CursorWrapper_executemany ok_driver a_cursor ''INSERT INTO t VALUES (%s)''
       (PList [PTuple [PInt 1]]) untraced
     = (Inl NotAContextManager, untraced)
   \<and> CursorWrapper_callproc ok_driver a_cursor ''p'' None untraced
     = (Inl NotAContextManager, untraced)
   \<and> ConnectionWrapper_commit ok_driver a_connection untraced
     = (Inl NotAContextManager, untraced)
   \<and> ConnectionWrapper_rollback ok_driver a_connection untraced
     = (Inl NotAContextManager, untraced)
   \<and> driver_calls untraced = []
   \<and> ok_driver (Call (cur_cursor a_cursor) ''execute'' [PStr ''SELECT 1''] []) = Inr (PObj 7)"
  by (simp add: CursorWrapper_execute_def CursorWrapper_executemany_def CursorWrapper_callproc_def
      ConnectionWrapper_commit_def ConnectionWrapper_rollback_def untraced_call untraced_def
      ok_driver_def)

subsection \<open>C2: the tag \<^verbatim>\<open>sql.params\<close> of \<^verbatim>\<open>execute\<close>\<close>

text \<open>
  Claim C2 says that \<^verbatim>\<open>execute(sql)\<close> produces a span without the tag
  \<^verbatim>\<open>sql.params\<close> while \<^verbatim>\<open>execute(sql, [])\<close> produces a span whose tag
  \<^verbatim>\<open>sql.params\<close> is the string form of \<^verbatim>\<open>[]\<close>. \<^verbatim>\<open>db_span\<close> tests the truth value of
  the parameters (line 62), and the empty list is false: with an ambient span, the span of
  \<^verbatim>\<open>execute('SELECT 1', [])\<close> has no tag \<^verbatim>\<open>sql.params\<close>, as the span of
  \<^verbatim>\<open>execute('SELECT 1')\<close>.
\<close>

theorem execute_empty_params_untagged:
  "tags (last (spans (snd (CursorWrapper_execute ok_driver a_cursor ''SELECT 1''
       (Some (PList [])) traced)))) ''sql.params'' \<noteq> Some (StrOf (PList []))
   \<and> tags (last (spans (snd (CursorWrapper_execute ok_driver a_cursor ''SELECT 1''
       (Some (PList [])) traced)))) ''sql.params'' = None
   \<and> tags (last (spans (snd (CursorWrapper_execute ok_driver a_cursor ''SELECT 1''
       None traced)))) ''sql.params'' = None"
  by (simp add: execute_traced [where p = 0] traced_def db_tags_params)

text \<open>
  Claim C2, amended: with an ambient span, \<^verbatim>\<open>execute\<close> starts one span, and that span
  carries the tag \<^verbatim>\<open>sql.params\<close> exactly when the caller supplied parameters whose truth
  value is true; the tag is then the string form of the parameters. Without parameters, and
  with empty parameters, the tag is absent.
\<close>

theorem execute_sql_params_tag:
  assumes "current_span w = Some p"
  shows "length (spans (snd (CursorWrapper_execute drv self sql params w))) = Suc (length (spans w))
    \<and> tags (last (spans (snd (CursorWrapper_execute drv self sql params w)))) ''sql.params''
        = (case params of
             None \<Rightarrow> None
           | Some v \<Rightarrow> if truthy v then Some (StrOf v) else None)"
  by (cases params) (simp_all add: execute_traced [OF assms] db_tags_params)

theorem execute_sql_params_tag_witness:
  "current_span traced = Some 0
   \<and> length (spans (snd (CursorWrapper_execute ok_driver a_cursor ''SELECT 1''
        (Some (PList [PInt 5])) traced))) = Suc (length (spans traced))
   \<and> tags (last (spans (snd (CursorWrapper_execute ok_driver a_cursor ''SELECT 1''
        (Some (PList [PInt 5])) traced)))) ''sql.params''
        = Some (StrOf (PList [PInt 5]))"
  using execute_sql_params_tag [where w = traced and p = 0 and drv = ok_driver
      and self = a_cursor and sql = "''SELECT 1''" and params = "Some (PList [PInt 5])"]
  by (simp add: traced_def)

subsection \<open>C3: when \<^verbatim>\<open>connect_params\<close> is \<^verbatim>\<open>None\<close>\<close>

text \<open>
  Claim C3 says that the recorded \<^verbatim>\<open>connectParams\<close> is \<^verbatim>\<open>None\<close> exactly when both
  the positional and the keyword arguments are empty. Line 101 tests the redacted keyword
  arguments: a connect call whose only argument is \<^verbatim>\<open>passwd='secret'\<close> has keyword
  arguments, and records \<^verbatim>\<open>None\<close>.
\<close>

theorem connect_params_none_with_password_only:
  "fst (ConnectionFactory_call ok_driver a_factory [] [(''passwd'', PStr ''secret'')] untraced)
     = Inr (make_wrapper ConnectionWrapperClass (PObj 7) ''MySQLdb'' PNone)
   \<and> [(''passwd'', PStr ''secret'')] \<noteq> ([] :: dict)"
  by (simp add: connect_call ok_driver_def a_factory_def ConnectionFactory_init_def
      redacted_kwargs_def)

text \<open>
  Claim C3, amended: when the real connect call returns a connection, the wrapper records
  \<^verbatim>\<open>None\<close> exactly when the positional arguments and the redacted keyword arguments are
  both empty, and otherwise the pair of the positional arguments and the redacted keyword
  arguments (the keyword arguments without the keys \<^verbatim>\<open>password\<close> and \<^verbatim>\<open>passwd\<close>).
\<close>

theorem connect_params_recorded:
  assumes "drv (Call (fn_obj (connect_func self)) ''__call__'' args kwargs) = Inr c"
  shows "fst (ConnectionFactory_call drv self args kwargs w)
     = Inr (make_wrapper (wrapper_ctor self) c (factory_module_name self)
         (if args = [] \<and> redacted_kwargs kwargs = [] then PNone
          else PTuple [PTuple args, PDict (redacted_kwargs kwargs)]))"
  by (simp add: connect_call assms)

theorem connect_params_recorded_witness:
  "ok_driver (Call (fn_obj (connect_func a_factory)) ''__call__'' [PStr ''db'']
       [(''user'', PStr ''u''), (''password'', PStr ''secret'')]) = Inr (PObj 7)
   \<and> fst (ConnectionFactory_call ok_driver a_factory [PStr ''db'']
       [(''user'', PStr ''u''), (''password'', PStr ''secret'')] untraced)
     = Inr (make_wrapper ConnectionWrapperClass (PObj 7) ''MySQLdb''
         (PTuple [PTuple [PStr ''db''], PDict [(''user'', PStr ''u'')]]))"
  using connect_params_recorded [where drv = ok_driver and self = a_factory
      and args = "[PStr ''db'']"
      and kwargs = "[(''user'', PStr ''u''), (''password'', PStr ''secret'')]"
      and c = "PObj 7" and w = untraced]
  by (simp add: ok_driver_def a_factory_def ConnectionFactory_init_def redacted_kwargs_def)

subsection \<open>C4: redaction of the recorded parameters only\<close>

text \<open>
  Claim C4: for a connect call whose keyword arguments contain \<^verbatim>\<open>password\<close> or
  \<^verbatim>\<open>passwd\<close>, the real connect callable receives the positional and keyword arguments
  as the caller gave them, and the \<^verbatim>\<open>connect_params\<close> recorded on the returned wrapper
  contains neither key; the tag \<^verbatim>\<open>sql.conn\<close> built from it is absent or the string form
  of that redacted value.
\<close>

theorem connect_redacts_recorded_params_only:
  assumes "has_key ''password'' kwargs \<or> has_key ''passwd'' kwargs"
  shows "driver_calls (snd (ConnectionFactory_call drv self args kwargs w))
        = driver_calls w @ [Call (fn_obj (connect_func self)) ''__call__'' args kwargs]
    \<and> (\<forall>cw. fst (ConnectionFactory_call drv self args kwargs w) = Inr cw \<longrightarrow>
            ''password'' \<notin> kwargs_keys (conn_connect_params cw)
          \<and> ''passwd'' \<notin> kwargs_keys (conn_connect_params cw)
          \<and> (\<forall>S sp cup.
                db_tags S sp (conn_connect_params cw) cup ''sql.conn'' = None
              \<or> db_tags S sp (conn_connect_params cw) cup ''sql.conn''
                   = Some (StrOf (conn_connect_params cw))))"
proof -
  have keys: "''password'' \<notin> kwargs_keys (if args = [] \<and> redacted_kwargs kwargs = [] then PNone
                  else PTuple [PTuple args, PDict (redacted_kwargs kwargs)])
      \<and> ''passwd'' \<notin> kwargs_keys (if args = [] \<and> redacted_kwargs kwargs = [] then PNone
                  else PTuple [PTuple args, PDict (redacted_kwargs kwargs)])"
    using redacted_keys [of kwargs] by simp
  show ?thesis
    using keys
    by (cases "drv (Call (fn_obj (connect_func self)) ''__call__'' args kwargs)")
       (auto simp: connect_call make_wrapper_def db_tags_conn)
qed

theorem connect_redacts_recorded_params_only_witness:
  "(has_key ''password'' [(''user'', PStr ''u''), (''passwd'', PStr ''secret'')]
      \<or> has_key ''passwd'' [(''user'', PStr ''u''), (''passwd'', PStr ''secret'')])
   \<and> fst (ConnectionFactory_call ok_driver a_factory []
         [(''user'', PStr ''u''), (''passwd'', PStr ''secret'')] untraced)
       = Inr (make_wrapper ConnectionWrapperClass (PObj 7) ''MySQLdb''
           (PTuple [PTuple [], PDict [(''user'', PStr ''u'')]]))
   \<and> driver_calls (snd (ConnectionFactory_call ok_driver a_factory []
         [(''user'', PStr ''u''), (''passwd'', PStr ''secret'')] untraced))
       = [Call (PObj 0) ''__call__'' [] [(''user'', PStr ''u''), (''passwd'', PStr ''secret'')]]
   \<and> ''password'' \<notin> kwargs_keys (PTuple [PTuple [], PDict [(''user'', PStr ''u'')]])
   \<and> ''passwd'' \<notin> kwargs_keys (PTuple [PTuple [], PDict [(''user'', PStr ''u'')]])"
  using connect_redacts_recorded_params_only
      [where kwargs = "[(''user'', PStr ''u''), (''passwd'', PStr ''secret'')]"
        and drv = ok_driver and self = a_factory and args = "[]" and w = untraced]
  by (simp add: has_key_def connect_call ok_driver_def a_factory_def ConnectionFactory_init_def
      redacted_kwargs_def untraced_def)

subsection \<open>C5: the tag \<^verbatim>\<open>sql\<close>\<close>

text \<open>
  Claim C5: with an ambient span, \<^verbatim>\<open>db_span\<close> starts one span. For the statements
  \<^verbatim>\<open>commit\<close> and \<^verbatim>\<open>rollback\<close> its operation is the keyword itself (the span is
  named with the module name, a colon and the keyword) and it has no tag \<^verbatim>\<open>sql\<close>; for
  every other statement the tag \<^verbatim>\<open>sql\<close> is the trimmed statement: the statement
  without a leading and a trailing run of whitespace, neither starting nor ending with
  whitespace.
\<close>

theorem db_span_sql_tag:
  assumes "current_span w = Some p"
  shows "fst (db_span S m sp cp cup w) = SpanCtx (length (spans w))
    \<and> length (spans (snd (db_span S m sp cp cup w))) = Suc (length (spans w))
    \<and> operation_name (last (spans (snd (db_span S m sp cp cup w))))
        = m @ '':'' @ (if S = ''commit'' \<or> S = ''rollback'' then S else operation S)
    \<and> tags (last (spans (snd (db_span S m sp cp cup w)))) ''sql''
        = (if S = ''commit'' \<or> S = ''rollback'' then None else Some (Text (strip S)))
    \<and> (\<exists>l r. S = l @ strip S @ r \<and> (\<forall>c\<in>set l. isspace c) \<and> (\<forall>c\<in>set r. isspace c))
    \<and> (strip S = [] \<or> (\<not> isspace (hd (strip S)) \<and> \<not> isspace (last (strip S))))"
proof -
  have "fst (db_span S m sp cp cup w) = SpanCtx (length (spans w))
    \<and> length (spans (snd (db_span S m sp cp cup w))) = Suc (length (spans w))
    \<and> operation_name (last (spans (snd (db_span S m sp cp cup w))))
        = m @ '':'' @ (if S = ''commit'' \<or> S = ''rollback'' then S else operation S)
    \<and> tags (last (spans (snd (db_span S m sp cp cup w)))) ''sql''
        = (if S = ''commit'' \<or> S = ''rollback'' then None else Some (Text (strip S)))"
    using operation_keyword [of S]
    by (auto simp: db_span_traced [OF assms] db_tags_sql add_sql_tag_def COMMIT_def ROLLBACK_def)
  then show ?thesis
    using strip_decomp [of S] strip_ends [of S] by blast
qed

theorem db_span_sql_tag_witness:
  "current_span traced = Some 0
   \<and> operation_name (last (spans (snd (db_span ''commit'' ''MySQLdb'' PNone PNone PNone traced))))
       = ''MySQLdb:commit''
   \<and> tags (last (spans (snd (db_span ''commit'' ''MySQLdb'' PNone PNone PNone traced)))) ''sql''
       = None
   \<and> tags (last (spans (snd (db_span ''rollback'' ''MySQLdb'' PNone PNone PNone traced)))) ''sql''
       = None
   \<and> tags (last (spans (snd (db_span ''  SELECT 1 '' ''MySQLdb'' PNone PNone PNone traced)))) ''sql''
       = Some (Text ''SELECT 1'')
   \<and> tags (last (spans (snd (db_span
         ([CHR 0x1F, CHR 0x09] @ ''UPDATE t SET a = 1'' @ [CHR 0xA0, CHR 0x85, CHR 0x0A, CHR 0x20])
         ''MySQLdb'' PNone PNone PNone traced)))) ''sql''
       = Some (Text ''UPDATE t SET a = 1'')"
  using db_span_sql_tag [where w = traced and p = 0 and S = "''commit''" and m = "''MySQLdb''"
           and sp = PNone and cp = PNone and cup = PNone]
        db_span_sql_tag [where w = traced and p = 0 and S = "''rollback''" and m = "''MySQLdb''"
           and sp = PNone and cp = PNone and cup = PNone]
        db_span_sql_tag [where w = traced and p = 0 and S = "''  SELECT 1 ''" and m = "''MySQLdb''"
           and sp = PNone and cp = PNone and cup = PNone]
        db_span_sql_tag [where w = traced and p = 0
           and S = "[CHR 0x1F, CHR 0x09] @ ''UPDATE t SET a = 1'' @ [CHR 0xA0, CHR 0x85, CHR 0x0A, CHR 0x20]"
           and m = "''MySQLdb''" and sp = PNone and cp = PNone and cup = PNone]
  by (simp add: traced_def strip_def isspace_def)

subsection \<open>C6: the operation token\<close>

text \<open>
  Claim C6: for a statement other than \<^verbatim>\<open>commit\<close> and \<^verbatim>\<open>rollback\<close>, the operation
  token is the part of the trimmed statement before its first space when it has one, and
  the empty string otherwise; the trimmed statement is the statement without a leading and
  a trailing run of whitespace, neither starting nor ending with whitespace. The derivation
  is total and raises nothing: with an ambient span \<^verbatim>\<open>db_span\<close> returns a started span
  named with the module name, a colon and the token, and the outcome of \<^verbatim>\<open>execute\<close> is
  the outcome of the real call.
\<close>

theorem operation_token_of_statement:
  assumes "S \<noteq> ''commit''" and "S \<noteq> ''rollback''" and "current_span w = Some p"
  shows "operation S = (if CHR '' '' \<in> set (strip S)
                        then takeWhile (\<lambda>c. c \<noteq> CHR '' '') (strip S) else [])
    \<and> fst (db_span S m sp cp cup w) = SpanCtx (length (spans w))
    \<and> operation_name (last (spans (snd (db_span S m sp cp cup w)))) = m @ '':'' @ operation S
    \<and> fst (CursorWrapper_execute drv self S params w)
        = drv (Call (cur_cursor self) ''execute''
                 (PStr S # (case params of None \<Rightarrow> [] | Some v \<Rightarrow> [v])) [])
    \<and> (\<exists>l r. S = l @ strip S @ r \<and> (\<forall>c\<in>set l. isspace c) \<and> (\<forall>c\<in>set r. isspace c))
    \<and> (strip S = [] \<or> (\<not> isspace (hd (strip S)) \<and> \<not> isspace (last (strip S))))"
proof -
  have "operation S = (if CHR '' '' \<in> set (strip S)
                        then takeWhile (\<lambda>c. c \<noteq> CHR '' '') (strip S) else [])
    \<and> fst (db_span S m sp cp cup w) = SpanCtx (length (spans w))
    \<and> operation_name (last (spans (snd (db_span S m sp cp cup w)))) = m @ '':'' @ operation S
    \<and> fst (CursorWrapper_execute drv self S params w)
        = drv (Call (cur_cursor self) ''execute''
                 (PStr S # (case params of None \<Rightarrow> [] | Some v \<Rightarrow> [v])) [])"
    using operation_token [OF assms(1,2)]
    by (simp add: db_span_traced [OF assms(3)] execute_traced [OF assms(3)])
  then show ?thesis
    using strip_decomp [of S] strip_ends [of S] by blast
qed

theorem operation_token_of_statement_witness:
  "''  SELECT 1 '' \<noteq> ''commit'' \<and> ''  SELECT 1 '' \<noteq> ''rollback''
   \<and> ''BEGIN'' \<noteq> ''commit'' \<and> ''BEGIN'' \<noteq> ''rollback''
   \<and> current_span traced = Some 0
   \<and> operation ''  SELECT 1 '' = ''SELECT''
   \<and> operation ''BEGIN'' = []
   \<and> operation (''BEGIN '' @ [CHR 0x1F]) = []
   \<and> operation ([CHR 0x1F] @ ''UPDATE t SET a = 1'' @ [CHR 0xA0]) = ''UPDATE''
   \<and> operation_name (last (spans (snd (db_span ''  SELECT 1 '' ''MySQLdb'' PNone PNone PNone traced))))
       = ''MySQLdb:SELECT''
   \<and> operation_name (last (spans (snd (db_span ([CHR 0x1F] @ ''UPDATE t SET a = 1'' @ [CHR 0xA0])
         ''MySQLdb'' PNone PNone PNone traced))))
       = ''MySQLdb:UPDATE''"
  using operation_token_of_statement [where w = traced and p = 0 and S = "''  SELECT 1 ''"
           and m = "''MySQLdb''" and sp = PNone and cp = PNone and cup = PNone
           and drv = ok_driver and self = a_cursor and params = None]
        operation_token_of_statement [where w = traced and p = 0 and S = "''BEGIN''"
           and m = "''MySQLdb''" and sp = PNone and cp = PNone and cup = PNone
           and drv = ok_driver and self = a_cursor and params = None]
        operation_token_of_statement [where w = traced and p = 0 and S = "''BEGIN '' @ [CHR 0x1F]"
           and m = "''MySQLdb''" and sp = PNone and cp = PNone and cup = PNone
           and drv = ok_driver and self = a_cursor and params = None]
        operation_token_of_statement [where w = traced and p = 0
           and S = "[CHR 0x1F] @ ''UPDATE t SET a = 1'' @ [CHR 0xA0]"
           and m = "''MySQLdb''" and sp = PNone and cp = PNone and cup = PNone
           and drv = ok_driver and self = a_cursor and params = None]
  by (simp add: traced_def strip_def isspace_def)

subsection \<open>C7: \<^verbatim>\<open>__exit__\<close> of the context manager variant\<close>

text \<open>
  Claim C7 says that on scope exit the value returned to the caller is the return value of
  the real connection's \<^verbatim>\<open>__exit__\<close>. Evaluated without an ambient span, on a normal exit
  (the three arguments are \<^verbatim>\<open>None\<close>) and with a real \<^verbatim>\<open>__exit__\<close> that would return a
  value: the wrapper's \<^verbatim>\<open>__exit__\<close> raises the interpreter's error, and the real
  \<^verbatim>\<open>__exit__\<close> is never called. (With an ambient span the claim holds: \<open>exit_traced\<close>.)
\<close>

theorem exit_without_ambient_span_raises:
  "ContextManagerConnectionWrapper_exit ok_driver a_connection PNone PNone PNone untraced
     = (Inl NotAContextManager, untraced)
   \<and> driver_calls untraced = []
   \<and> ok_driver (Call (conn_connection a_connection) ''__exit__'' [PNone, PNone, PNone] [])
       = Inr (PObj 7)"
  by (simp add: ContextManagerConnectionWrapper_exit_def untraced_call untraced_def ok_driver_def)

subsection \<open>C8: the outcome of the real call\<close>

text \<open>
  Claim C8 says that every instrumented call, connect included, returns the real call's
  return value unchanged on success. The connection factory returns a wrapper built around
  the real connection: two connect calls for which the real connect function returns the
  same object give the caller different values, since the wrapper also carries the recorded
  connect parameters.
\<close>

theorem connect_returns_wrapper:
  "ok_driver (Call (fn_obj (connect_func a_factory)) ''__call__'' [PStr ''db1''] []) = Inr (PObj 7)
   \<and> ok_driver (Call (fn_obj (connect_func a_factory)) ''__call__'' [PStr ''db2''] []) = Inr (PObj 7)
   \<and> fst (ConnectionFactory_call ok_driver a_factory [PStr ''db1''] [] traced)
       = Inr (make_wrapper ConnectionWrapperClass (PObj 7) ''MySQLdb''
           (PTuple [PTuple [PStr ''db1''], PDict []]))
   \<and> fst (ConnectionFactory_call ok_driver a_factory [PStr ''db1''] [] traced)
       \<noteq> fst (ConnectionFactory_call ok_driver a_factory [PStr ''db2''] [] traced)"
  by (simp add: connect_call ok_driver_def a_factory_def ConnectionFactory_init_def
      redacted_kwargs_def make_wrapper_def)

text \<open>
  Claim C8, amended: with an ambient span, \<^verbatim>\<open>execute\<close>, \<^verbatim>\<open>executemany\<close>,
  \<^verbatim>\<open>callproc\<close>, \<^verbatim>\<open>commit\<close> and \<^verbatim>\<open>rollback\<close> end with the outcome of the real driver
  call: the exception it raised, type and message unchanged, or the value it returned. The
  span of the call is closed, and it is marked failed exactly when the real call raised.
  The connect call propagates the exception of the real connect function in the same way,
  closing its span as failed; on success it returns the connection wrapper holding the real
  connection, the module name and the redacted connect parameters.
\<close>

theorem driver_outcome_passes_through:
  assumes "current_span w = Some p"
  shows "fst (CursorWrapper_execute drv cur sql params w)
       = drv (Call (cur_cursor cur) ''execute''
                (PStr sql # (case params of None \<Rightarrow> [] | Some v \<Rightarrow> [v])) [])
    \<and> finished (last (spans (snd (CursorWrapper_execute drv cur sql params w))))
    \<and> failed (last (spans (snd (CursorWrapper_execute drv cur sql params w))))
       = isl (drv (Call (cur_cursor cur) ''execute''
                (PStr sql # (case params of None \<Rightarrow> [] | Some v \<Rightarrow> [v])) []))
    \<and> fst (CursorWrapper_executemany drv cur sql seq w)
       = drv (Call (cur_cursor cur) ''executemany'' [PStr sql, seq] [])
    \<and> finished (last (spans (snd (CursorWrapper_executemany drv cur sql seq w))))
    \<and> failed (last (spans (snd (CursorWrapper_executemany drv cur sql seq w))))
       = isl (drv (Call (cur_cursor cur) ''executemany'' [PStr sql, seq] []))
    \<and> fst (CursorWrapper_callproc drv cur name params w)
       = drv (Call (cur_cursor cur) ''callproc''
                (PStr name # (case params of None \<Rightarrow> [] | Some v \<Rightarrow> [v])) [])
    \<and> finished (last (spans (snd (CursorWrapper_callproc drv cur name params w))))
    \<and> failed (last (spans (snd (CursorWrapper_callproc drv cur name params w))))
       = isl (drv (Call (cur_cursor cur) ''callproc''
                (PStr name # (case params of None \<Rightarrow> [] | Some v \<Rightarrow> [v])) []))
    \<and> fst (ConnectionWrapper_commit drv conn w) = drv (Call (conn_connection conn) ''commit'' [] [])
    \<and> finished (last (spans (snd (ConnectionWrapper_commit drv conn w))))
    \<and> failed (last (spans (snd (ConnectionWrapper_commit drv conn w))))
       = isl (drv (Call (conn_connection conn) ''commit'' [] []))
    \<and> fst (ConnectionWrapper_rollback drv conn w)
       = drv (Call (conn_connection conn) ''rollback'' [] [])
    \<and> finished (last (spans (snd (ConnectionWrapper_rollback drv conn w))))
    \<and> failed (last (spans (snd (ConnectionWrapper_rollback drv conn w))))
       = isl (drv (Call (conn_connection conn) ''rollback'' [] []))
    \<and> fst (ConnectionFactory_call drv fac args kwargs w)
       = (case drv (Call (fn_obj (connect_func fac)) ''__call__'' args kwargs) of
            Inl e \<Rightarrow> Inl e
          | Inr c \<Rightarrow> Inr (make_wrapper (wrapper_ctor fac) c (factory_module_name fac)
                     (if args = [] \<and> redacted_kwargs kwargs = [] then PNone
                      else PTuple [PTuple args, PDict (redacted_kwargs kwargs)])))
    \<and> finished (last (spans (snd (ConnectionFactory_call drv fac args kwargs w))))
    \<and> failed (last (spans (snd (ConnectionFactory_call drv fac args kwargs w))))
       = isl (drv (Call (fn_obj (connect_func fac)) ''__call__'' args kwargs))"
  by (simp add: execute_traced [OF assms] executemany_traced [OF assms] callproc_traced [OF assms]
      commit_traced [OF assms] rollback_traced [OF assms] connect_call)

theorem driver_outcome_passes_through_witness:
  "current_span traced = Some 0
   \<and> fst (CursorWrapper_execute failing_driver a_cursor ''SELECT 1'' None traced)
       = Inl (Raised ''OperationalError'' ''server has gone away'')
   \<and> finished (last (spans (snd (CursorWrapper_execute failing_driver a_cursor ''SELECT 1''
        None traced))))
   \<and> failed (last (spans (snd (CursorWrapper_execute failing_driver a_cursor ''SELECT 1''
        None traced))))
   \<and> fst (ConnectionFactory_call failing_driver a_factory [] [] traced)
       = Inl (Raised ''OperationalError'' ''server has gone away'')
   \<and> failed (last (spans (snd (ConnectionFactory_call failing_driver a_factory [] [] traced))))
   \<and> fst (ConnectionWrapper_commit ok_driver a_connection traced) = Inr (PObj 7)
   \<and> \<not> failed (last (spans (snd (ConnectionWrapper_commit ok_driver a_connection traced))))"
  using driver_outcome_passes_through [where w = traced and p = 0 and drv = failing_driver
      and cur = a_cursor and sql = "''SELECT 1''" and params = None and fac = a_factory
      and args = "[]" and kwargs = "[]"]
    driver_outcome_passes_through [where w = traced and p = 0 and drv = ok_driver
      and conn = a_connection]
  by (simp add: traced_def failing_driver_def ok_driver_def)

subsection \<open>C9: the arity of the real cursor call\<close>

text \<open>
  Claim C9 says that \<^verbatim>\<open>execute\<close> and \<^verbatim>\<open>callproc\<close> invoke the real cursor method with
  one argument when the caller supplied no parameters and with two when the caller supplied
  some. Evaluated without an ambient span: the real cursor method is not invoked at all,
  with or without parameters. (With an ambient span the arity mirrors the caller's:
  \<open>arity_mirrors_traced\<close>.)
\<close>

theorem no_ambient_span_no_cursor_call:
  "driver_calls (snd (CursorWrapper_execute ok_driver a_cursor ''SELECT 1'' None untraced)) = []
   \<and> driver_calls (snd (CursorWrapper_execute ok_driver a_cursor ''SELECT 1''
        (Some (PList [])) untraced)) = []
   \<and> driver_calls (snd (CursorWrapper_callproc ok_driver a_cursor ''p'' None untraced)) = []
   \<and> driver_calls (snd (CursorWrapper_callproc ok_driver a_cursor ''p''
        (Some (PList [])) untraced)) = []"
  by (simp add: CursorWrapper_execute_def CursorWrapper_callproc_def untraced_call untraced_def)

subsection \<open>C10: the span of \<^verbatim>\<open>callproc\<close>\<close>

text \<open>
  Claim C10 says that for every procedure name without a space the tag \<^verbatim>\<open>sql\<close> of the
  span is the string \<^verbatim>\<open>sproc:<name>\<close>. \<^verbatim>\<open>db_span\<close> trims the statement: for the name
  \<^verbatim>\<open>p\<close> followed by a newline, which contains no space, the tag is \<^verbatim>\<open>sproc:p\<close>, without
  the newline.
\<close>

theorem callproc_sql_tag_is_trimmed:
  "CHR '' '' \<notin> set (''p'' @ [CHR 0x0A])
   \<and> tags (last (spans (snd (CursorWrapper_callproc ok_driver a_cursor (''p'' @ [CHR 0x0A])
        None traced)))) ''sql'' = Some (Text ''sproc:p'')
   \<and> ''sproc:p'' \<noteq> ''sproc:'' @ ''p'' @ [CHR 0x0A]"
  by (simp add: callproc_traced [where p = 0] traced_def db_tags_sql add_sql_tag_def COMMIT_def
      ROLLBACK_def strip_def isspace_def)

text \<open>
  Claim C10, amended: with an ambient span, for every procedure name without a space, the
  operation token is empty, the span is named with the module name and a colon, and the tag
  \<^verbatim>\<open>sql\<close> is the trimmed string \<^verbatim>\<open>sproc:<name>\<close>: that string without its trailing
  run of whitespace, which is \<^verbatim>\<open>sproc:<name>\<close> itself when the name does not end in
  whitespace.
\<close>

theorem callproc_span_naming:
  assumes "current_span w = Some p" and "CHR '' '' \<notin> set name"
  shows "operation (''sproc:'' @ name) = []
    \<and> operation_name (last (spans (snd (CursorWrapper_callproc drv self name params w))))
        = cur_module_name self @ '':''
    \<and> tags (last (spans (snd (CursorWrapper_callproc drv self name params w)))) ''sql''
        = Some (Text (strip (''sproc:'' @ name)))
    \<and> (name = [] \<or> \<not> isspace (last name) \<longrightarrow> strip (''sproc:'' @ name) = ''sproc:'' @ name)
    \<and> strip (''sproc:'' @ name) \<noteq> []
    \<and> \<not> isspace (last (strip (''sproc:'' @ name)))
    \<and> (\<exists>r. ''sproc:'' @ name = strip (''sproc:'' @ name) @ r \<and> (\<forall>c\<in>set r. isspace c))"
proof -
  have a: "add_sql_tag (''sproc:'' @ name)"
    by (simp add: add_sql_tag_def COMMIT_def ROLLBACK_def)
  have c1: "operation (''sproc:'' @ name) = []"
    by (rule operation_sproc [OF assms(2)])
  have c2: "operation_name (last (spans (snd (CursorWrapper_callproc drv self name params w))))
        = cur_module_name self @ '':''"
    by (simp only: callproc_span [OF assms(1)] c1 append_Nil2)
  have c3: "tags (last (spans (snd (CursorWrapper_callproc drv self name params w)))) ''sql''
        = Some (Text (strip (''sproc:'' @ name)))"
    by (simp only: callproc_span [OF assms(1)] db_tags_sql a if_True)
  have c4: "name = [] \<or> \<not> isspace (last name) \<longrightarrow> strip (''sproc:'' @ name) = ''sproc:'' @ name"
    using strip_id [of "''sproc:'' @ name"] by (auto simp: isspace_def)
  have h: "''sproc:'' @ name \<noteq> [] \<and> \<not> isspace (hd (''sproc:'' @ name))"
    by (simp add: isspace_def)
  have c5: "strip (''sproc:'' @ name) \<noteq> [] \<and> \<not> isspace (last (strip (''sproc:'' @ name)))
    \<and> (\<exists>r. ''sproc:'' @ name = strip (''sproc:'' @ name) @ r \<and> (\<forall>c\<in>set r. isspace c))"
    using h by (intro strip_keeps_head) blast+
  show ?thesis
    using c1 c2 c3 c4 c5 by blast
qed

theorem callproc_span_naming_witness:
  "current_span traced = Some 0 \<and> CHR '' '' \<notin> set ''get_user''
   \<and> CHR '' '' \<notin> set (''p'' @ [CHR 0x1F, CHR 0x0A])
   \<and> (''get_user'' = [] \<or> \<not> isspace (last ''get_user''))
   \<and> operation_name (last (spans (snd (CursorWrapper_callproc ok_driver a_cursor ''get_user''
        None traced)))) = ''MySQLdb:''
   \<and> tags (last (spans (snd (CursorWrapper_callproc ok_driver a_cursor ''get_user''
        None traced)))) ''sql'' = Some (Text ''sproc:get_user'')
   \<and> tags (last (spans (snd (CursorWrapper_callproc ok_driver a_cursor (''p'' @ [CHR 0x1F, CHR 0x0A])
        None traced)))) ''sql'' = Some (Text ''sproc:p'')"
  using callproc_span_naming [where w = traced and p = 0 and name = "''get_user''"
      and drv = ok_driver and self = a_cursor and params = None]
    callproc_span_naming [where w = traced and p = 0 and name = "''p'' @ [CHR 0x1F, CHR 0x0A]"
      and drv = ok_driver and self = a_cursor and params = None]
  by (simp add: traced_def a_cursor_def strip_def isspace_def)

end
